theory Spec2Isabelle
  imports Complex_Main
begin

section \<open>JavaScript numbers\<close>

text \<open>
  A JavaScript number is an IEEE 754 double. The model keeps the three kinds of special
  value apart and stores a finite double by its exact rational value. The two zeros are
  one value \<open>Fin 0\<close>: the program never divides by a zero it has not tested with
  \<open>===\<close> first, and no other operation it uses tells \<open>-0\<close> from \<open>+0\<close>.
\<close>

datatype jsnum = NaN | PInf | NInf | Fin rat

text \<open>Integer logarithm: the largest \<open>k\<close> with \<open>b ^ k \<le> n\<close>, for \<open>n \<ge> 1\<close>.\<close>

function ilog :: "int \<Rightarrow> int \<Rightarrow> nat" where
  "ilog b n = (if b < 2 \<or> n < b then 0 else Suc (ilog b (n div b)))"
  by pat_completeness auto
termination
proof (relation "measure (\<lambda>(b, n). nat n)")
  show "wf (measure (\<lambda>(b, n). nat n))"
    by simp
next
  fix b n :: int
  assume "\<not> (b < 2 \<or> n < b)"
  then have b: "2 \<le> b" and n: "b \<le> n"
    by auto
  from n b have "0 < n"
    by linarith
  with b have "n div b < n"
    by (simp add: int_div_less_self)
  moreover from b n have "0 \<le> n div b"
    by (simp add: pos_imp_zdiv_nonneg_iff)
  ultimately show "((b, n div b), (b, n)) \<in> measure (\<lambda>(b, n). nat n)"
    by simp
qed

declare ilog.simps [simp del]

text \<open>
  \<open>floor_log b x\<close> is the integer \<open>e\<close> with \<open>b powi e \<le> x < b powi (e + 1)\<close>, for a
  positive rational \<open>x\<close> and a base \<open>b \<ge> 2\<close>.
\<close>

definition floor_log :: "int \<Rightarrow> rat \<Rightarrow> int" where
  "floor_log b x =
     (if 1 \<le> x then int (ilog b \<lfloor>x\<rfloor>)
      else let k = int (ilog b \<lfloor>1 / x\<rfloor>) in
           if 1 \<le> x * of_int b powi k then - k else - (k + 1))"

definition round_half_even :: "rat \<Rightarrow> int" where
  "round_half_even a =
     (let f = \<lfloor>a\<rfloor>; r = a - of_int f in
      if r < 1 / 2 then f
      else if 1 / 2 < r then f + 1
      else if even f then f else f + 1)"

text \<open>
  \<open>rd q\<close> is the Number value for the rational \<open>q\<close>: the nearest double, ties to the
  even significand (53 bits, least exponent \<open>-1074\<close>), and an infinity from \<open>2 ^ 1024\<close> on.
\<close>

definition rd :: "rat \<Rightarrow> jsnum" where
  "rd q =
     (if q = 0 then Fin 0
      else
        let a = \<bar>q\<bar>;
            E = max (floor_log 2 a - 52) (- 1074);
            m = round_half_even (a / 2 powi E);
            v = of_int m * 2 powi E
        in if 2 ^ 1024 \<le> v then (if 0 < q then PInf else NInf)
           else Fin (if 0 < q then v else - v))"

subsection \<open>Operators on numbers\<close>

definition num_isNaN :: "jsnum \<Rightarrow> bool" where
  "num_isNaN x = (x = NaN)"

definition num_isFinite :: "jsnum \<Rightarrow> bool" where
  "num_isFinite x = (case x of Fin _ \<Rightarrow> True | _ \<Rightarrow> False)"

text \<open>\<open>x < y\<close>; every comparison with \<open>NaN\<close> is false.\<close>

fun num_lt :: "jsnum \<Rightarrow> jsnum \<Rightarrow> bool" where
  "num_lt NaN _ = False"
| "num_lt _ NaN = False"
| "num_lt PInf _ = False"
| "num_lt _ PInf = True"
| "num_lt _ NInf = False"
| "num_lt NInf _ = True"
| "num_lt (Fin a) (Fin b) = (a < b)"

definition num_gt :: "jsnum \<Rightarrow> jsnum \<Rightarrow> bool" where
  "num_gt x y = num_lt y x"

text \<open>\<open>x >= y\<close> is true when \<open>x < y\<close> is false and neither is \<open>NaN\<close>.\<close>

definition num_ge :: "jsnum \<Rightarrow> jsnum \<Rightarrow> bool" where
  "num_ge x y = (x \<noteq> NaN \<and> y \<noteq> NaN \<and> \<not> num_lt x y)"

text \<open>\<open>x === y\<close> on numbers: \<open>NaN\<close> equals nothing.\<close>

definition num_eq :: "jsnum \<Rightarrow> jsnum \<Rightarrow> bool" where
  "num_eq x y = (x \<noteq> NaN \<and> x = y)"

fun num_neg :: "jsnum \<Rightarrow> jsnum" where
  "num_neg NaN = NaN"
| "num_neg PInf = NInf"
| "num_neg NInf = PInf"
| "num_neg (Fin a) = Fin (- a)"

text \<open>\<open>Math.abs\<close>\<close>

fun num_abs :: "jsnum \<Rightarrow> jsnum" where
  "num_abs NaN = NaN"
| "num_abs PInf = PInf"
| "num_abs NInf = PInf"
| "num_abs (Fin a) = Fin \<bar>a\<bar>"

fun num_add :: "jsnum \<Rightarrow> jsnum \<Rightarrow> jsnum" where
  "num_add NaN _ = NaN"
| "num_add _ NaN = NaN"
| "num_add PInf NInf = NaN"
| "num_add NInf PInf = NaN"
| "num_add PInf _ = PInf"
| "num_add _ PInf = PInf"
| "num_add NInf _ = NInf"
| "num_add _ NInf = NInf"
| "num_add (Fin a) (Fin b) = rd (a + b)"

definition num_sub :: "jsnum \<Rightarrow> jsnum \<Rightarrow> jsnum" where
  "num_sub x y = num_add x (num_neg y)"

text \<open>The sign of a number other than \<open>NaN\<close>: \<open>-1\<close>, \<open>0\<close> or \<open>1\<close>.\<close>

fun num_sign :: "jsnum \<Rightarrow> int" where
  "num_sign NaN = 0"
| "num_sign PInf = 1"
| "num_sign NInf = - 1"
| "num_sign (Fin a) = (if a = 0 then 0 else if 0 < a then 1 else - 1)"

definition signed_inf :: "int \<Rightarrow> jsnum" where
  "signed_inf s = (if s = 0 then NaN else if 0 < s then PInf else NInf)"

fun num_mul :: "jsnum \<Rightarrow> jsnum \<Rightarrow> jsnum" where
  "num_mul NaN _ = NaN"
| "num_mul _ NaN = NaN"
| "num_mul (Fin a) (Fin b) = rd (a * b)"
| "num_mul x y = signed_inf (num_sign x * num_sign y)"

text \<open>
  \<open>x / y\<close>. The quotient of a finite number by zero is the infinity that division by
  \<open>+0\<close> gives; the program reaches no division whose divisor is a zero.
\<close>

fun num_div :: "jsnum \<Rightarrow> jsnum \<Rightarrow> jsnum" where
  "num_div NaN _ = NaN"
| "num_div _ NaN = NaN"
| "num_div (Fin a) (Fin b) = (if b = 0 then signed_inf (num_sign (Fin a)) else rd (a / b))"
| "num_div (Fin a) _ = Fin 0"
| "num_div x (Fin b) = signed_inf (num_sign x * (if b < 0 then - 1 else 1))"
| "num_div _ _ = NaN"

text \<open>
  \<open>Math.round\<close>: the nearest integer, a tie going up. The result of rounding a double is
  a double again.
\<close>

fun math_round :: "jsnum \<Rightarrow> jsnum" where
  "math_round (Fin a) = Fin (of_int \<lfloor>a + 1 / 2\<rfloor>)"
| "math_round x = x"

text \<open>\<open>Number.EPSILON\<close> is \<open>2 ^ -52\<close>.\<close>

definition EPSILON :: jsnum where
  "EPSILON = Fin (1 / 2 ^ 52)"

section \<open>JavaScript values\<close>

text \<open>
  Strings are lists of code units below 256, which covers every string of the program
  (\<open>\<times>\<close> is the unit \<open>0xD7\<close> and \<open>\<div>\<close> the unit \<open>0xF7\<close>).
\<close>

datatype jsval = Num jsnum | Str string | Bool bool | Null | Undefined

definition typeof_number :: "jsval \<Rightarrow> bool" where
  "typeof_number v = (case v of Num _ \<Rightarrow> True | _ \<Rightarrow> False)"

text \<open>\<open>ToNumber\<close> on a string is defined with the parser, below.\<close>

section \<open>Numerals: from numbers to strings and back\<close>

definition is_digit :: "char \<Rightarrow> bool" where
  "is_digit c = (c \<in> set ''0123456789'')"

definition digit_value :: "char \<Rightarrow> int" where
  "digit_value c =
     (case map_of (zip ''0123456789'' [0, 1, 2, 3, 4, 5, 6, 7, 8, 9]) c of
        Some d \<Rightarrow> d | None \<Rightarrow> 0)"

definition digit_char :: "int \<Rightarrow> char" where
  "digit_char d = ''0123456789'' ! nat d"

text \<open>The value of a string of decimal digits.\<close>

definition digits_value :: "string \<Rightarrow> int" where
  "digits_value ds = foldl (\<lambda>acc c. 10 * acc + digit_value c) 0 ds"

text \<open>The decimal representation of an integer \<open>n \<ge> 0\<close>, without leading zeros.\<close>

function digits_of :: "int \<Rightarrow> string" where
  "digits_of n = (if n < 10 then [digit_char n] else digits_of (n div 10) @ [digit_char (n mod 10)])"
  by pat_completeness auto
termination
  by (relation "measure nat") auto

declare digits_of.simps [simp del]

subsection \<open>\<open>Number.prototype.toString\<close>\<close>

text \<open>
  For a finite \<open>x > 0\<close> the specification of the language takes integers \<open>n\<close>, \<open>k\<close>,
  \<open>s\<close> with \<open>k \<ge> 1\<close>, \<open>10 ^ (k - 1) \<le> s < 10 ^ k\<close>, such that the Number value for
  \<open>s * 10 ^ (n - k)\<close> is \<open>x\<close> and \<open>k\<close> is as small as possible; of several \<open>s\<close> the one
  nearest to \<open>x\<close> (the even one on a tie).

  \<open>digits_candidate x n0 k\<close> looks at the two multiples of \<open>10 ^ (n0 - k)\<close> around \<open>x\<close>,
  where \<open>10 ^ (n0 - 1) \<le> x < 10 ^ n0\<close>.
\<close>

definition digits_candidate :: "rat \<Rightarrow> int \<Rightarrow> int \<Rightarrow> int option" where
  "digits_candidate x n0 k =
     (let sc = 10 powi (n0 - k);
          lo = \<lfloor>x / sc\<rfloor>;
          hi = lo + 1;
          lo_ok = (rd (of_int lo * sc) = Fin x);
          hi_ok = (rd (of_int hi * sc) = Fin x)
      in if lo_ok \<and> hi_ok then
           (let dl = x - of_int lo * sc; dh = of_int hi * sc - x in
            Some (if dl < dh then lo else if dh < dl then hi else if even lo then lo else hi))
         else if lo_ok then Some lo
         else if hi_ok then Some hi
         else None)"

text \<open>
  The search for the least \<open>k\<close>, from \<open>k\<close> upwards. Every double has an exact decimal
  expansion of fewer than 1100 digits, where the search ends at the latest (and real
  doubles need no more than 17 digits); the first branch only makes the function total.
\<close>

function search_digits :: "rat \<Rightarrow> int \<Rightarrow> int \<Rightarrow> int \<times> int" where
  "search_digits x n0 k =
     (if 1100 \<le> k then (\<lfloor>x / 10 powi (n0 - k) + 1 / 2\<rfloor>, k)
      else
        (case digits_candidate x n0 k of
           Some s \<Rightarrow> (s, k)
         | None \<Rightarrow> search_digits x n0 (k + 1)))"
  by pat_completeness auto
termination
  by (relation "measure (\<lambda>(x, n0, k). nat (1100 - k))") auto

declare search_digits.simps [simp del]

text \<open>The triple \<open>(s, k, n)\<close> of a finite \<open>x > 0\<close>.\<close>

definition shortest_digits :: "rat \<Rightarrow> int \<times> int \<times> int" where
  "shortest_digits x =
     (let n0 = floor_log 10 x + 1;
          (s, k) = search_digits x n0 1
      in if s = 10 ^ nat k then (s div 10, k, n0 + 1) else (s, k, n0))"

definition zeros :: "int \<Rightarrow> string" where
  "zeros n = replicate (nat n) (CHR ''0'')"

text \<open>The five layouts of \<open>Number::toString\<close> for the digits \<open>s\<close> of length \<open>k\<close>.\<close>

definition render_digits :: "int \<Rightarrow> int \<Rightarrow> int \<Rightarrow> string" where
  "render_digits s k n =
     (let ds = digits_of s in
      if k \<le> n \<and> n \<le> 21 then ds @ zeros (n - k)
      else if 0 < n \<and> n \<le> 21 then take (nat n) ds @ ''.'' @ drop (nat n) ds
      else if - 6 < n \<and> n \<le> 0 then ''0.'' @ zeros (- n) @ ds
      else
        let e = n - 1;
            ex = [if e < 0 then CHR ''-'' else CHR ''+''] @ digits_of \<bar>e\<bar>
        in if k = 1 then ds @ ''e'' @ ex
           else take 1 ds @ ''.'' @ drop 1 ds @ ''e'' @ ex)"

fun number_toString :: "jsnum \<Rightarrow> string" where
  "number_toString NaN = ''NaN''"
| "number_toString PInf = ''Infinity''"
| "number_toString NInf = ''-Infinity''"
| "number_toString (Fin q) =
     (if q = 0 then ''0''
      else
        let (s, k, n) = shortest_digits \<bar>q\<bar> in
        (if q < 0 then ''-'' else []) @ render_digits s k n)"

subsection \<open>\<open>Number.prototype.toFixed\<close> and \<open>toExponential\<close>\<close>

text \<open>
  \<open>x.toFixed(f)\<close> for \<open>0 \<le> f \<le> 100\<close>: the integer \<open>n\<close> nearest to \<open>x * 10 ^ f\<close>, the
  larger one on a tie, with a point before its last \<open>f\<close> digits.
\<close>

definition toFixed :: "jsnum \<Rightarrow> nat \<Rightarrow> string" where
  "toFixed x f =
     (case x of
        Fin q \<Rightarrow>
          if 10 ^ 21 \<le> \<bar>q\<bar> then number_toString x
          else
            let n = \<lfloor>\<bar>q\<bar> * 10 ^ f + 1 / 2\<rfloor>;
                m = digits_of n;
                m = (if f = 0 then m
                     else
                       let m = (if length m \<le> f then replicate (f + 1 - length m) (CHR ''0'') @ m else m);
                           k = length m
                       in take (k - f) m @ ''.'' @ drop (k - f) m)
            in (if q < 0 then ''-'' else []) @ m
      | _ \<Rightarrow> number_toString x)"

text \<open>
  \<open>x.toExponential(f)\<close> for \<open>0 \<le> f \<le> 100\<close>: \<open>e\<close> and \<open>n\<close> with
  \<open>10 ^ f \<le> n < 10 ^ (f + 1)\<close> and \<open>n * 10 ^ (e - f)\<close> nearest to \<open>x\<close>, the larger one on
  a tie.
\<close>

definition toExponential :: "jsnum \<Rightarrow> nat \<Rightarrow> string" where
  "toExponential x f =
     (case x of
        Fin q \<Rightarrow>
          let a = \<bar>q\<bar>;
              (n, e) =
                (if a = 0 then (0, 0)
                 else
                   let e0 = floor_log 10 a;
                       n0 = \<lfloor>a / 10 powi (e0 - int f) + 1 / 2\<rfloor>
                   in if n0 = 10 ^ (f + 1) then (10 ^ f, e0 + 1) else (n0, e0));
              m = (if a = 0 then replicate (f + 1) (CHR ''0'') else digits_of n);
              m = (if f = 0 then m else take 1 m @ ''.'' @ drop 1 m);
              c = (if 0 \<le> e then ''+'' else ''-'')
          in (if q < 0 then ''-'' else []) @ m @ ''e'' @ c @ digits_of \<bar>e\<bar>
      | _ \<Rightarrow> number_toString x)"

subsection \<open>\<open>parseFloat\<close>\<close>

text \<open>White space and line terminators, among the code units below 256.\<close>

definition is_white :: "char \<Rightarrow> bool" where
  "is_white c = (c \<in> set [CHR 0x09, CHR 0x0A, CHR 0x0B, CHR 0x0C, CHR 0x0D, CHR 0x20, CHR 0xA0])"

text \<open>
  The exponent part at the head of a string, \<open>e\<close> or \<open>E\<close>, an optional sign and at
  least one digit; \<open>0\<close> where the string does not start with one. The second component is
  what follows the exponent part.
\<close>

definition exponent_part :: "string \<Rightarrow> int \<times> string" where
  "exponent_part s =
     (case s of
        [] \<Rightarrow> (0, s)
      | c # r \<Rightarrow>
          if c = CHR ''e'' \<or> c = CHR ''E'' then
            (let (neg, r') =
                   (case r of
                      [] \<Rightarrow> (False, r)
                    | d # r2 \<Rightarrow>
                        if d = CHR ''-'' then (True, r2)
                        else if d = CHR ''+'' then (False, r2)
                        else (False, r));
                 ds = takeWhile is_digit r'
             in if ds = [] then (0, s)
                else ((if neg then - digits_value ds else digits_value ds), dropWhile is_digit r'))
          else (0, s))"

text \<open>
  The longest prefix that is an unsigned decimal literal: its exact value and the rest
  of the string, or \<open>None\<close> where no prefix is a literal. \<open>Infinity\<close> is handled by the
  caller.
\<close>

definition unsigned_decimal :: "string \<Rightarrow> (rat \<times> string) option" where
  "unsigned_decimal s =
     (let ip = takeWhile is_digit s;
          r1 = dropWhile is_digit s;
          dot = (r1 \<noteq> [] \<and> hd r1 = CHR ''.'');
          fp = (if dot then takeWhile is_digit (tl r1) else []);
          r2 = (if dot then dropWhile is_digit (tl r1) else r1)
      in if ip = [] \<and> fp = [] then None
         else
           let (ex, r3) = exponent_part r2 in
           Some (of_int (digits_value (ip @ fp)) * 10 powi (ex - int (length fp)), r3))"

definition starts_with :: "string \<Rightarrow> string \<Rightarrow> bool" where
  "starts_with p s = (take (length p) s = p)"

text \<open>The signed literal at the head of a string that has no leading white space.\<close>

definition signed_decimal :: "string \<Rightarrow> (jsnum \<times> string) option" where
  "signed_decimal s =
     (let neg = (s \<noteq> [] \<and> hd s = CHR ''-'');
          r = (if s \<noteq> [] \<and> (hd s = CHR ''-'' \<or> hd s = CHR ''+'') then tl s else s)
      in if starts_with ''Infinity'' r then Some (if neg then NInf else PInf, drop 8 r)
         else
           (case unsigned_decimal r of
              None \<Rightarrow> None
            | Some (v, r') \<Rightarrow> Some (rd (if neg then - v else v), r')))"

definition parseFloat :: "string \<Rightarrow> jsnum" where
  "parseFloat s =
     (case signed_decimal (dropWhile is_white s) of
        None \<Rightarrow> NaN
      | Some (v, _) \<Rightarrow> v)"

subsection \<open>\<open>ToNumber\<close>, \<open>isNaN\<close> and \<open>isFinite\<close> on values\<close>

text \<open>The digits of a literal \<open>0x...\<close>, \<open>0o...\<close> or \<open>0b...\<close> in their radix.\<close>

definition radix_digit :: "char \<Rightarrow> int option" where
  "radix_digit c =
     map_of (zip ''0123456789abcdefABCDEF''
       [0, 1, 2, 3, 4, 5, 6, 7, 8, 9, 10, 11, 12, 13, 14, 15, 10, 11, 12, 13, 14, 15]) c"

definition radix_literal :: "string \<Rightarrow> jsnum option" where
  "radix_literal s =
     (case s of
        z # p # ds \<Rightarrow>
          (let radix =
                 (if p = CHR ''x'' \<or> p = CHR ''X'' then 16
                  else if p = CHR ''o'' \<or> p = CHR ''O'' then 8
                  else if p = CHR ''b'' \<or> p = CHR ''B'' then 2
                  else (0::int))
           in if z = CHR ''0'' \<and> radix \<noteq> 0 \<and> ds \<noteq> []
                 \<and> list_all (\<lambda>c. case radix_digit c of Some v \<Rightarrow> v < radix | None \<Rightarrow> False) ds
              then Some (rd (of_int (foldl (\<lambda>acc c. radix * acc + the (radix_digit c)) 0 ds)))
              else None)
      | _ \<Rightarrow> None)"

definition trim :: "string \<Rightarrow> string" where
  "trim s = rev (dropWhile is_white (rev (dropWhile is_white s)))"

text \<open>\<open>ToNumber\<close> of a string: the whole trimmed string has to be a numeric literal.\<close>

definition string_to_number :: "string \<Rightarrow> jsnum" where
  "string_to_number s =
     (let t = trim s in
      if t = [] then Fin 0
      else
        (case radix_literal t of
           Some v \<Rightarrow> v
         | None \<Rightarrow>
             (case signed_decimal t of
                Some (v, r) \<Rightarrow> if r = [] then v else NaN
              | None \<Rightarrow> NaN)))"

fun to_number :: "jsval \<Rightarrow> jsnum" where
  "to_number (Num x) = x"
| "to_number (Str s) = string_to_number s"
| "to_number (Bool b) = Fin (if b then 1 else 0)"
| "to_number Null = Fin 0"
| "to_number Undefined = NaN"

text \<open>The global functions \<open>isNaN\<close> and \<open>isFinite\<close> convert their argument first.\<close>

definition isNaN :: "jsval \<Rightarrow> bool" where
  "isNaN v = num_isNaN (to_number v)"

definition isFinite :: "jsval \<Rightarrow> bool" where
  "isFinite v = num_isFinite (to_number v)"

section \<open>\<open>Utils\<close>\<close>

definition is_word :: "char \<Rightarrow> bool" where
  "is_word c =
     (c \<in> set ''abcdefghijklmnopqrstuvwxyzABCDEFGHIJKLMNOPQRSTUVWXYZ0123456789_'')"

text \<open>
  \<open>s.replace(/\B(?=(\d{3})+(?!\d))/g, ',')\<close>: a comma goes in at every position that is
  not a word boundary and is followed by a run of digits whose length is a positive
  multiple of three. The first argument says whether the character before the position
  is a word character.
\<close>

fun insert_separators :: "bool \<Rightarrow> string \<Rightarrow> string" where
  "insert_separators pw [] = []"
| "insert_separators pw (c # cs) =
     (let l = length (takeWhile is_digit (c # cs)) in
      (if pw = is_word c \<and> 0 < l \<and> l mod 3 = 0 then '','' else [])
        @ c # insert_separators (is_word c) cs)"

text \<open>
  \<open>addThousandsSeparator\<close> splits at the points, rewrites the first part and joins the
  parts again, which leaves everything from the first point on as it was.
\<close>

definition addThousandsSeparator :: "string \<Rightarrow> string" where
  "addThousandsSeparator numStr =
     insert_separators False (takeWhile (\<lambda>c. c \<noteq> CHR ''.'') numStr)
       @ dropWhile (\<lambda>c. c \<noteq> CHR ''.'') numStr"

definition removeThousandsSeparator :: "string \<Rightarrow> string" where
  "removeThousandsSeparator numStr = filter (\<lambda>c. c \<noteq> CHR '','') numStr"

definition toNumber :: "string \<Rightarrow> jsnum" where
  "toNumber str = parseFloat (removeThousandsSeparator str)"

text \<open>
  \<open>formatNumber(num, maxDecimals = 10)\<close>; every call of the program leaves
  \<open>maxDecimals\<close> at its default. The literal \<open>1e-10\<close> is the double nearest to it.
\<close>

definition formatNumber :: "jsval \<Rightarrow> string" where
  "formatNumber num =
     (case num of
        Num x \<Rightarrow>
          if num_isNaN x then ''Error''
          else if \<not> num_isFinite x then (if num_gt x (Fin 0) then ''Infinity'' else ''-Infinity'')
          else if num_ge (num_abs x) (Fin (10 ^ 15)) then toExponential x 6
          else if num_lt (num_abs x) (rd (1 / 10 ^ 10)) \<and> \<not> num_eq x (Fin 0) then toExponential x 6
          else
            let formatted = number_toString (parseFloat (toFixed x 10)) in
            if num_ge (num_abs x) (Fin 1000) then addThousandsSeparator formatted
            else formatted
      | _ \<Rightarrow> ''Error'')"

section \<open>\<open>Operations\<close>\<close>

definition add :: "jsnum \<Rightarrow> jsnum \<Rightarrow> jsnum" where
  "add a b = num_add a b"

definition subtract :: "jsnum \<Rightarrow> jsnum \<Rightarrow> jsnum" where
  "subtract a b = num_sub a b"

definition multiply :: "jsnum \<Rightarrow> jsnum \<Rightarrow> jsnum" where
  "multiply a b = num_mul a b"

definition divide :: "jsnum \<Rightarrow> jsnum \<Rightarrow> jsval" where
  "divide a b =
     (if num_eq b (Fin 0) then
        (if num_eq a (Fin 0) then Str ''Error''
         else Num (if num_gt a (Fin 0) then PInf else NInf))
      else Num (num_div a b))"

definition percentage :: "jsnum \<Rightarrow> jsnum" where
  "percentage v = num_div v (Fin 100)"

text \<open>
  \<open>fixPrecision(value, precision = 15)\<close>; \<open>Math.pow(10, precision)\<close> is the double
  nearest to the power, which is the power itself up to \<open>10 ^ 22\<close>.
\<close>

definition fixPrecision :: "jsnum \<Rightarrow> nat \<Rightarrow> jsnum" where
  "fixPrecision v precision =
     (if num_lt (num_abs v) EPSILON then Fin 0
      else
        let factor = rd (10 ^ precision) in
        num_div (math_round (num_mul v factor)) factor)"

text \<open>The operators \<open>\<times>\<close> and \<open>\<div>\<close> as strings.\<close>

definition op_times :: string where
  "op_times = [CHR 0xD7]"

definition op_divide :: string where
  "op_divide = [CHR 0xF7]"

text \<open>The \<open>switch\<close> of \<open>calculate\<close>; \<open>None\<close> is its default case.\<close>

definition apply_operator :: "string \<Rightarrow> jsnum \<Rightarrow> jsnum \<Rightarrow> jsval option" where
  "apply_operator operator a b =
     (if operator = ''+'' then Some (Num (add a b))
      else if operator = ''-'' then Some (Num (subtract a b))
      else if operator = op_times \<or> operator = ''*'' then Some (Num (multiply a b))
      else if operator = op_divide \<or> operator = ''/'' then Some (divide a b)
      else None)"

definition calculate :: "jsval \<Rightarrow> jsval \<Rightarrow> string \<Rightarrow> jsval" where
  "calculate a b operator =
     (case (a, b) of
        (Num x, Num y) \<Rightarrow>
          if isNaN a \<or> isNaN b then Str ''Error''
          else
            (case apply_operator operator x y of
               None \<Rightarrow> Str ''Error''
             | Some result \<Rightarrow>
                 if isNaN result then Str ''Error''
                 else if \<not> isFinite result then
                   (if num_gt (to_number result) (Fin 0) then Str ''Infinity'' else Str ''-Infinity'')
                 else Num (fixPrecision (to_number result) 15))
      | _ \<Rightarrow> Str ''Error'')"

definition isValidResult :: "jsval \<Rightarrow> bool" where
  "isValidResult result =
     (case result of
        Str s \<Rightarrow> s \<in> set [''Error'', ''Infinity'', ''-Infinity'']
      | Num x \<Rightarrow> \<not> num_isNaN x
      | _ \<Rightarrow> False)"

text \<open>
  \<open>formatOperation(a, operator, b)\<close> with a second operand, which is how the calculator
  calls it.
\<close>

definition formatOperation :: "jsval \<Rightarrow> string \<Rightarrow> jsval \<Rightarrow> string" where
  "formatOperation a operator b = formatNumber a @ '' '' @ operator @ '' '' @ formatNumber b"

section \<open>\<open>MemoryOperations\<close>\<close>

record history_entry =
  timestamp :: string
  operation :: string
  result :: jsval

record memory_operations =
  memory :: jsnum
  history :: "history_entry list"

text \<open>The constructor.\<close>

definition new_memory :: memory_operations where
  "new_memory = \<lparr>memory = Fin 0, history = []\<rparr>"

definition store :: "jsval \<Rightarrow> memory_operations \<Rightarrow> memory_operations" where
  "store v m = (case v of Num x \<Rightarrow> if \<not> isNaN v then m\<lparr>memory := x\<rparr> else m | _ \<Rightarrow> m)"

definition recall :: "memory_operations \<Rightarrow> jsnum" where
  "recall m = memory m"

definition memory_clear :: "memory_operations \<Rightarrow> memory_operations" where
  "memory_clear m = m\<lparr>memory := Fin 0\<rparr>"

definition memory_add :: "jsval \<Rightarrow> memory_operations \<Rightarrow> memory_operations" where
  "memory_add v m =
     (case v of Num x \<Rightarrow> if \<not> isNaN v then m\<lparr>memory := num_add (memory m) x\<rparr> else m | _ \<Rightarrow> m)"

definition memory_subtract :: "jsval \<Rightarrow> memory_operations \<Rightarrow> memory_operations" where
  "memory_subtract v m =
     (case v of Num x \<Rightarrow> if \<not> isNaN v then m\<lparr>memory := num_sub (memory m) x\<rparr> else m | _ \<Rightarrow> m)"

definition hasValue :: "memory_operations \<Rightarrow> bool" where
  "hasValue m = (\<not> num_eq (memory m) (Fin 0))"

text \<open>
  \<open>addToHistory(operation, result)\<close>; the time stamp that \<open>new Date()\<close> gives is an
  argument. The entry goes to the front, and a list of more than 100 entries is cut to
  its first 100.
\<close>

definition addToHistory :: "string \<Rightarrow> string \<Rightarrow> jsval \<Rightarrow> memory_operations \<Rightarrow> memory_operations" where
  "addToHistory now opn res m =
     (let h = \<lparr>timestamp = now, operation = opn, result = res\<rparr> # history m in
      m\<lparr>history := (if 100 < length h then take 100 h else h)\<rparr>)"

text \<open>
  \<open>xs.slice(0, end)\<close>: \<open>end\<close> is made an integer (\<open>NaN\<close> is \<open>0\<close>, a fraction is cut
  towards zero), and a negative \<open>end\<close> counts from the end of the list.
\<close>

definition slice_from_start :: "'a list \<Rightarrow> jsnum \<Rightarrow> 'a list" where
  "slice_from_start xs e =
     (case e of
        NaN \<Rightarrow> []
      | PInf \<Rightarrow> xs
      | NInf \<Rightarrow> []
      | Fin q \<Rightarrow>
          let i = (if q < 0 then - \<lfloor>- q\<rfloor> else \<lfloor>q\<rfloor>) in
          if i < 0 then take (nat (int (length xs) + i)) xs else take (nat i) xs)"

text \<open>\<open>getHistory(limit = 10)\<close>; \<open>None\<close> is a call without the argument.\<close>

definition getHistory :: "jsnum option \<Rightarrow> memory_operations \<Rightarrow> history_entry list" where
  "getHistory limit m =
     slice_from_start (history m) (case limit of None \<Rightarrow> Fin 10 | Some l \<Rightarrow> l)"

definition clearHistory :: "memory_operations \<Rightarrow> memory_operations" where
  "clearHistory m = m\<lparr>history := []\<rparr>"

section \<open>\<open>Display\<close>\<close>

text \<open>
  The fields of the display that the program reads back. \<open>displayInput\<close> is the text of
  the input element; style classes, labels for assistive technology and the log are
  written and never read.
\<close>

record display =
  currentValue :: string
  expression :: string
  isError :: bool
  displayInput :: string

definition error_strings :: "string list" where
  "error_strings = [''Error'', ''Infinity'', ''-Infinity'']"

text \<open>
  \<open>updateDisplay(value)\<close> for a string: the empty string is shown as \<open>0\<close>, the error
  state follows the three error strings, and a text of more than 15 characters without
  an \<open>e\<close> goes to the input element in scientific notation.
\<close>

definition updateDisplay :: "string \<Rightarrow> display \<Rightarrow> display" where
  "updateDisplay v d =
     (let v = (if v = [] then ''0'' else v);
          displayValue =
            (if 15 < length v \<and> CHR ''e'' \<notin> set v then toExponential (parseFloat v) 6 else v)
      in d\<lparr>currentValue := v, isError := (v \<in> set error_strings), displayInput := displayValue\<rparr>)"

definition updateExpression :: "string \<Rightarrow> display \<Rightarrow> display" where
  "updateExpression expr d = d\<lparr>expression := expr\<rparr>"

text \<open>The constructor, with \<open>init\<close>.\<close>

definition new_display :: display where
  "new_display =
     updateExpression []
       (updateDisplay ''0''
          \<lparr>currentValue = ''0'', expression = [], isError = False, displayInput = []\<rparr>)"

definition setErrorState :: "bool \<Rightarrow> display \<Rightarrow> display" where
  "setErrorState e d = d\<lparr>isError := e\<rparr>"

definition clearError :: "display \<Rightarrow> display" where
  "clearError d = setErrorState False d"

definition appendDigit :: "string \<Rightarrow> display \<Rightarrow> display" where
  "appendDigit digit d =
     (let d = (if isError d then (clearError d)\<lparr>currentValue := ''0''\<rparr> else d) in
      if currentValue d = ''0'' \<and> digit \<noteq> ''.'' then
        updateDisplay digit (d\<lparr>currentValue := digit\<rparr>)
      else if digit = ''.'' \<and> CHR ''.'' \<in> set (currentValue d) then d
      else if 15 \<le> length (currentValue d) then d
      else updateDisplay (currentValue d @ digit) (d\<lparr>currentValue := currentValue d @ digit\<rparr>))"

definition getCurrentValue :: "display \<Rightarrow> jsnum" where
  "getCurrentValue d = (if isError d then Fin 0 else toNumber (currentValue d))"

definition display_clear :: "display \<Rightarrow> display" where
  "display_clear d =
     updateExpression []
       (updateDisplay ''0''
          (setErrorState False (d\<lparr>currentValue := ''0'', expression := []\<rparr>)))"

definition deleteLast :: "display \<Rightarrow> display" where
  "deleteLast d =
     (if isError d then display_clear d
      else
        let v = (if 1 < length (currentValue d) then butlast (currentValue d) else ''0'') in
        updateDisplay v (d\<lparr>currentValue := v\<rparr>))"

text \<open>\<open>showResult(result, operation = '')\<close>\<close>

definition showResult :: "jsval \<Rightarrow> string \<Rightarrow> display \<Rightarrow> display" where
  "showResult res opn d =
     (let d =
        (if isValidResult res then
           (case res of
              Num _ \<Rightarrow> updateDisplay (formatNumber res) d
            | Str s \<Rightarrow> updateDisplay s d
            | _ \<Rightarrow> d)
         else updateDisplay ''Error'' d)
      in if opn \<noteq> [] then updateExpression (opn @ '' ='') d else d)"

definition isShowingZero :: "display \<Rightarrow> bool" where
  "isShowingZero d = (currentValue d = ''0'')"

definition hasDecimal :: "display \<Rightarrow> bool" where
  "hasDecimal d = (CHR ''.'' \<in> set (currentValue d))"

definition showAsPercentage :: "display \<Rightarrow> display" where
  "showAsPercentage d =
     (let v = getCurrentValue d;
          p = percentage v
      in updateExpression (formatNumber (Num v) @ ''%'') (updateDisplay (formatNumber (Num p)) d))"

section \<open>\<open>Calculator\<close>\<close>

record calc_state =
  previousValue :: "jsnum option"
  currentOperator :: "string option"
  waitingForOperand :: bool
  lastOperation :: "(string \<times> jsnum) option"
  justCalculated :: bool

text \<open>
  The calculator owns a display, a memory and its state; \<open>None\<close> is \<open>null\<close>. The
  elements of the page, which the methods only decorate, are left out.
\<close>

record calculator =
  disp :: display
  mem :: memory_operations
  state :: calc_state

definition new_calculator :: calculator where
  "new_calculator =
     \<lparr>disp = new_display,
      mem = new_memory,
      state = \<lparr>previousValue = None, currentOperator = None, waitingForOperand = False,
               lastOperation = None, justCalculated = False\<rparr>\<rparr>"

text \<open>An operator is a string or \<open>null\<close>; it counts as true when it is a string that is not empty.\<close>

definition truthy :: "string option \<Rightarrow> bool" where
  "truthy s = (case s of None \<Rightarrow> False | Some t \<Rightarrow> t \<noteq> [])"

definition opt_num :: "jsnum option \<Rightarrow> jsval" where
  "opt_num x = (case x of None \<Rightarrow> Null | Some v \<Rightarrow> Num v)"

definition inputNumber :: "string \<Rightarrow> calculator \<Rightarrow> calculator" where
  "inputNumber digit c =
     (if waitingForOperand (state c) then
        c\<lparr>disp := updateDisplay digit (disp c),
          state := (state c)\<lparr>waitingForOperand := False, justCalculated := False\<rparr>\<rparr>
      else
        let c = (if justCalculated (state c)
                 then c\<lparr>disp := display_clear (disp c), state := (state c)\<lparr>justCalculated := False\<rparr>\<rparr>
                 else c)
        in c\<lparr>disp := appendDigit digit (disp c)\<rparr>)"

text \<open>
  \<open>calculate()\<close> returns a number or \<open>null\<close> and may add an entry to the history; the
  first argument is the time stamp of that entry.
\<close>

definition calc_calculate :: "string \<Rightarrow> calculator \<Rightarrow> jsnum option \<times> calculator" where
  "calc_calculate now c =
     (let cur = getCurrentValue (disp c) in
      case (previousValue (state c), currentOperator (state c)) of
        (Some prev, Some operator) \<Rightarrow>
          (let res = calculate (Num prev) (Num cur) operator;
               opn = formatOperation (Num prev) operator (Num cur);
               c = c\<lparr>mem := addToHistory now opn res (mem c)\<rparr>
           in (case res of Num r \<Rightarrow> Some r | _ \<Rightarrow> None, c))
      | _ \<Rightarrow> (Some cur, c))"

definition inputOperator :: "string \<Rightarrow> string \<Rightarrow> calculator \<Rightarrow> calculator" where
  "inputOperator now operator c =
     (let cur = getCurrentValue (disp c);
          c =
            (if previousValue (state c) = None then
               c\<lparr>state := (state c)\<lparr>previousValue := Some cur\<rparr>\<rparr>
             else if truthy (currentOperator (state c)) \<and> \<not> waitingForOperand (state c) then
               (case calc_calculate now c of
                  (Some r, c) \<Rightarrow>
                    c\<lparr>disp := updateDisplay (formatNumber (Num r)) (disp c),
                      state := (state c)\<lparr>previousValue := Some r\<rparr>\<rparr>
                | (None, c) \<Rightarrow> c)
             else c\<lparr>state := (state c)\<lparr>previousValue := Some cur\<rparr>\<rparr>);
          c = c\<lparr>state := (state c)\<lparr>currentOperator := Some operator, waitingForOperand := True,
                                   justCalculated := False\<rparr>\<rparr>
      in c\<lparr>disp := updateExpression
                      (formatNumber (opt_num (previousValue (state c))) @ '' '' @ operator) (disp c)\<rparr>)"

definition resetState :: "calculator \<Rightarrow> calculator" where
  "resetState c =
     c\<lparr>state := (state c)\<lparr>previousValue := None, currentOperator := None,
                          waitingForOperand := False, lastOperation := None\<rparr>\<rparr>"

definition equals :: "string \<Rightarrow> calculator \<Rightarrow> calculator" where
  "equals now c =
     (if truthy (currentOperator (state c)) \<and> previousValue (state c) \<noteq> None then
        (case calc_calculate now c of
           (Some r, c) \<Rightarrow>
             (let opn = formatOperation (opt_num (previousValue (state c)))
                          (the (currentOperator (state c))) (Num (getCurrentValue (disp c)));
                  c = c\<lparr>disp := showResult (Num r) opn (disp c)\<rparr>;
                  c = c\<lparr>state := (state c)\<lparr>lastOperation :=
                         Some (the (currentOperator (state c)), getCurrentValue (disp c))\<rparr>\<rparr>;
                  c = resetState c
              in c\<lparr>state := (state c)\<lparr>justCalculated := True\<rparr>\<rparr>)
         | (None, c) \<Rightarrow> resetState (c\<lparr>disp := showResult (Str ''Error'') [] (disp c)\<rparr>))
      else c)"

definition clear :: "calculator \<Rightarrow> calculator" where
  "clear c = resetState (c\<lparr>disp := display_clear (disp c)\<rparr>)"

definition delete :: "calculator \<Rightarrow> calculator" where
  "delete c = (if \<not> waitingForOperand (state c) then c\<lparr>disp := deleteLast (disp c)\<rparr> else c)"

definition inputDecimal :: "calculator \<Rightarrow> calculator" where
  "inputDecimal c =
     (if waitingForOperand (state c) then
        c\<lparr>disp := updateDisplay ''0.'' (disp c), state := (state c)\<lparr>waitingForOperand := False\<rparr>\<rparr>
      else if \<not> hasDecimal (disp c) then c\<lparr>disp := appendDigit ''.'' (disp c)\<rparr>
      else c)"

definition calc_percentage :: "calculator \<Rightarrow> calculator" where
  "calc_percentage c =
     c\<lparr>disp := showAsPercentage (disp c), state := (state c)\<lparr>justCalculated := True\<rparr>\<rparr>"

subsection \<open>User events\<close>

text \<open>
  What the buttons and the keyboard can ask of the calculator; an event that may write to
  the history carries the time stamp.
\<close>

datatype event =
    Digit string
  | Operator string string
  | Calculate string
  | ClearAll
  | Backspace
  | Decimal
  | Percent

fun perform :: "calculator \<Rightarrow> event \<Rightarrow> calculator" where
  "perform c (Digit d) = inputNumber d c"
| "perform c (Operator now operator) = inputOperator now operator c"
| "perform c (Calculate now) = equals now c"
| "perform c ClearAll = clear c"
| "perform c Backspace = delete c"
| "perform c Decimal = inputDecimal c"
| "perform c Percent = calc_percentage c"

definition run :: "event list \<Rightarrow> calculator" where
  "run es = foldl perform new_calculator es"

text \<open>A sequence of calls of \<open>addToHistory\<close>, each with its time stamp, operation and result.\<close>

definition make_entry :: "string \<times> string \<times> jsval \<Rightarrow> history_entry" where
  "make_entry e = (case e of (now, opn, res) \<Rightarrow> \<lparr>timestamp = now, operation = opn, result = res\<rparr>)"

definition record_all :: "(string \<times> string \<times> jsval) list \<Rightarrow> memory_operations \<Rightarrow> memory_operations" where
  "record_all es m = foldl (\<lambda>m e. case e of (now, opn, res) \<Rightarrow> addToHistory now opn res m) m es"

section \<open>Notions of the specification\<close>


text \<open>
  Also in the words of the specification: \<open>x\<close> rounded to \<open>p\<close> decimal places, a tie
  going away from zero.
\<close>

definition round_places :: "nat \<Rightarrow> rat \<Rightarrow> rat" where
  "round_places p x = sgn x * of_int \<lfloor>\<bar>x\<bar> * 10 ^ p + 1 / 2\<rfloor> / 10 ^ p"

section \<open>Evaluation\<close>

text \<open>
  The definitions are evaluated by rewriting. A \<open>let\<close> is unfolded once the term it binds
  has its value.
\<close>

lemma let_weak_cong: "a = b \<Longrightarrow> Let a t = Let b t"
  by simp

lemma floor_numeral_div [simp]: "\<lfloor>numeral a / numeral b :: rat\<rfloor> = numeral a div numeral b"
  using floor_divide_of_int_eq [of "numeral a" "numeral b", where ?'a = rat] by simp

lemma floor_one_div [simp]: "\<lfloor>1 / numeral b :: rat\<rfloor> = 1 div numeral b"
  using floor_divide_of_int_eq [of 1 "numeral b", where ?'a = rat] by simp

lemma floor_neg_numeral_div [simp]:
  "\<lfloor>- (numeral a / numeral b) :: rat\<rfloor> = - numeral a div numeral b"
  using floor_divide_of_int_eq [of "- numeral a" "numeral b", where ?'a = rat] by simp

lemma floor_neg_one_div [simp]: "\<lfloor>- (1 / numeral b) :: rat\<rfloor> = - 1 div numeral b"
  using floor_divide_of_int_eq [of "- 1" "numeral b", where ?'a = rat] by simp

lemma replicate_numeral_eval [simp]:
  "replicate (numeral k) x = x # replicate (pred_numeral k) x"
  by (simp add: numeral_eq_Suc)

lemmas num_defs = floor_log_def round_half_even_def rd_def Let_def ilog.simps
  num_isNaN_def num_isFinite_def num_gt_def num_ge_def num_eq_def num_sub_def signed_inf_def
  EPSILON_def

lemmas str_defs = is_digit_def digit_value_def digit_char_def digits_value_def digits_of.simps
  digits_candidate_def search_digits.simps shortest_digits_def zeros_def render_digits_def toFixed_def
  toExponential_def is_white_def exponent_part_def unsigned_decimal_def starts_with_def
  signed_decimal_def parseFloat_def radix_digit_def radix_literal_def trim_def
  string_to_number_def isNaN_def isFinite_def is_word_def addThousandsSeparator_def
  removeThousandsSeparator_def toNumber_def formatNumber_def

lemmas op_defs = add_def subtract_def multiply_def divide_def percentage_def fixPrecision_def
  op_times_def op_divide_def apply_operator_def calculate_def isValidResult_def
  formatOperation_def typeof_number_def

lemmas calc_defs = error_strings_def updateDisplay_def updateExpression_def new_display_def
  setErrorState_def clearError_def appendDigit_def getCurrentValue_def display_clear_def
  deleteLast_def showResult_def isShowingZero_def hasDecimal_def showAsPercentage_def
  new_calculator_def truthy_def opt_num_def inputNumber_def calc_calculate_def inputOperator_def
  resetState_def equals_def clear_def delete_def inputDecimal_def calc_percentage_def run_def
  new_memory_def addToHistory_def

subsection \<open>Values that the examples below meet\<close>

lemma toNumber_0: "toNumber ''0'' = Fin 0"
  by (simp add: num_defs str_defs op_defs cong: let_weak_cong)

lemma toNumber_1: "toNumber ''1'' = Fin 1"
  by (simp add: num_defs str_defs op_defs cong: let_weak_cong)

lemma toNumber_3: "toNumber ''3'' = Fin 3"
  by (simp add: num_defs str_defs op_defs cong: let_weak_cong)

lemma toNumber_5: "toNumber ''5'' = Fin 5"
  by (simp add: num_defs str_defs op_defs cong: let_weak_cong)

lemma toNumber_8: "toNumber ''8'' = Fin 8"
  by (simp add: num_defs str_defs op_defs cong: let_weak_cong)

lemma toNumber_12: "toNumber ''12'' = Fin 12"
  by (simp add: num_defs str_defs op_defs cong: let_weak_cong)

lemma toNumber_minus_2: "toNumber ''-2'' = Fin (- 2)"
  by (simp add: num_defs str_defs op_defs cong: let_weak_cong)

lemma toNumber_minus: "toNumber ''-'' = NaN"
  by (simp add: num_defs str_defs op_defs cong: let_weak_cong)

lemma toNumber_third: "toNumber ''0.3333333333'' = Fin (6004799502560181 / 18014398509481984)"
  by (simp add: num_defs str_defs op_defs cong: let_weak_cong)

lemma formatNumber_0: "formatNumber (Num (Fin 0)) = ''0''"
  by (simp add: num_defs str_defs op_defs cong: let_weak_cong)

lemma formatNumber_1: "formatNumber (Num (Fin 1)) = ''1''"
  by (simp add: num_defs str_defs op_defs cong: let_weak_cong)

lemma formatNumber_3: "formatNumber (Num (Fin 3)) = ''3''"
  by (simp add: num_defs str_defs op_defs cong: let_weak_cong)

lemma formatNumber_5: "formatNumber (Num (Fin 5)) = ''5''"
  by (simp add: num_defs str_defs op_defs cong: let_weak_cong)

lemma formatNumber_8: "formatNumber (Num (Fin 8)) = ''8''"
  by (simp add: num_defs str_defs op_defs cong: let_weak_cong)

lemma formatNumber_minus_2: "formatNumber (Num (Fin (- 2))) = ''-2''"
  by (simp add: num_defs str_defs op_defs cong: let_weak_cong)

lemma formatNumber_NaN: "formatNumber (Num NaN) = ''Error''"
  by (simp add: num_defs str_defs op_defs cong: let_weak_cong)

lemma formatNumber_third_15:
  "formatNumber (Num (Fin (6004799503160655 / 18014398509481984))) = ''0.3333333333''"
  by (simp add: num_defs str_defs op_defs cong: let_weak_cong)

lemma formatNumber_third_10:
  "formatNumber (Num (Fin (6004799502560181 / 18014398509481984))) = ''0.3333333333''"
  by (simp add: num_defs str_defs op_defs cong: let_weak_cong)

lemma calculate_3_minus_5: "calculate (Num (Fin 3)) (Num (Fin 5)) ''-'' = Num (Fin (- 2))"
  by (simp add: num_defs str_defs op_defs cong: let_weak_cong)

lemma calculate_5_plus_3: "calculate (Num (Fin 5)) (Num (Fin 3)) ''+'' = Num (Fin 8)"
  by (simp add: num_defs str_defs op_defs cong: let_weak_cong)

lemma calculate_1_by_3:
  "calculate (Num (Fin 1)) (Num (Fin 3)) op_divide = Num (Fin (6004799503160655 / 18014398509481984))"
  by (simp add: num_defs str_defs op_defs cong: let_weak_cong)

lemma calculate_5_by_0: "calculate (Num (Fin 5)) (Num (Fin 0)) op_divide = Str ''Infinity''"
  by (simp add: num_defs str_defs op_defs cong: let_weak_cong)

lemma operators_not_empty: "op_divide \<noteq> []" "op_times \<noteq> []"
  by (simp_all add: op_divide_def op_times_def)

lemmas value_eqs =
  toNumber_0 toNumber_1 toNumber_3 toNumber_5 toNumber_8 toNumber_12 toNumber_minus_2
  toNumber_minus toNumber_third formatNumber_0 formatNumber_1 formatNumber_3 formatNumber_5 formatNumber_8
  formatNumber_minus_2 formatNumber_NaN formatNumber_third_15 formatNumber_third_10 calculate_3_minus_5 calculate_5_plus_3 calculate_1_by_3 calculate_5_by_0
  operators_not_empty

lemmas step_defs = calc_defs formatOperation_def percentage_def isValidResult_def num_isNaN_def
  Let_def value_eqs

section \<open>The arithmetic engine\<close>

lemma isNaN_Num [simp]: "isNaN (Num x) = (x = NaN)"
  by (simp add: isNaN_def num_isNaN_def)

lemma isFinite_Num [simp]: "isFinite (Num x) = num_isFinite x"
  by (simp add: isFinite_def)

lemma isNaN_Error [simp]: "isNaN (Str ''Error'')"
  by (simp add: isNaN_def num_isNaN_def string_to_number_def trim_def is_white_def radix_literal_def
     signed_decimal_def starts_with_def unsigned_decimal_def is_digit_def Let_def cong: let_weak_cong)

lemma apply_operator_divide:
  "operator = op_divide \<or> operator = ''/'' \<Longrightarrow> apply_operator operator a b = Some (divide a b)"
  by (auto simp: apply_operator_def op_divide_def op_times_def)

lemma calculate_by_zero:
  assumes "operator = op_divide \<or> operator = ''/''"
  shows "calculate (Num a) (Num (Fin 0)) operator =
    (case a of NaN \<Rightarrow> Str ''Error'' | PInf \<Rightarrow> Str ''Infinity'' | NInf \<Rightarrow> Str ''-Infinity''
     | Fin q \<Rightarrow> if q = 0 then Str ''Error'' else if 0 < q then Str ''Infinity'' else Str ''-Infinity'')"
  by (cases a)
     (simp_all add: calculate_def apply_operator_divide [OF assms] divide_def num_eq_def num_gt_def
        num_isFinite_def)









text \<open>
  C4. Division by zero, through \<open>calculate\<close> with either spelling of the operator: the
  answer is \<open>Error\<close> when \<open>a == 0\<close>, the sentinel \<open>Infinity\<close> when \<open>a > 0\<close> and the sentinel
  \<open>-Infinity\<close> when \<open>a < 0\<close>.
\<close>

theorem calculate_divide_by_zero:
  "operator = op_divide \<or> operator = ''/'' \<Longrightarrow>
   (num_eq a (Fin 0) \<longrightarrow> calculate (Num a) (Num (Fin 0)) operator = Str ''Error'')
   \<and> (num_gt a (Fin 0) \<longrightarrow> calculate (Num a) (Num (Fin 0)) operator = Str ''Infinity'')
   \<and> (num_lt a (Fin 0) \<longrightarrow> calculate (Num a) (Num (Fin 0)) operator = Str ''-Infinity'')"
  by (cases a) (simp_all add: calculate_by_zero num_eq_def num_gt_def)

theorem calculate_divide_by_zero_witness:
  "num_eq (Fin 0) (Fin 0) \<and> calculate (Num (Fin 0)) (Num (Fin 0)) op_divide = Str ''Error''
   \<and> num_gt (Fin 7) (Fin 0) \<and> calculate (Num (Fin 7)) (Num (Fin 0)) op_divide = Str ''Infinity''
   \<and> num_lt (Fin (- 7)) (Fin 0)
   \<and> calculate (Num (Fin (- 7))) (Num (Fin 0)) op_divide = Str ''-Infinity''"
  using calculate_divide_by_zero [of op_divide "Fin 0"]
    calculate_divide_by_zero [of op_divide "Fin 7"]
    calculate_divide_by_zero [of op_divide "Fin (- 7)"]
  by (simp add: num_eq_def num_gt_def)

section \<open>The memory\<close>

text \<open>
  C6, as the program has it. A value that is not of type number, or is \<open>NaN\<close>, leaves the
  whole memory object as it was under \<open>store\<close>, \<open>add\<close> and \<open>subtract\<close>. Every other
  number is accepted, the infinities among them: \<open>store\<close> makes it the accumulator, \<open>add\<close>
  adds it to the accumulator and \<open>subtract\<close> subtracts it. On a finite accumulator an
  infinity that is stored or added becomes the accumulator, and one that is subtracted
  leaves the opposite infinity.
\<close>

theorem memory_mutators_guard:
  "(\<not> typeof_number v \<or> v = Num NaN
      \<longrightarrow> store v m = m \<and> memory_add v m = m \<and> memory_subtract v m = m)
   \<and> (x \<noteq> NaN \<longrightarrow>
        store (Num x) m = m\<lparr>memory := x\<rparr>
        \<and> memory_add (Num x) m = m\<lparr>memory := num_add (memory m) x\<rparr>
        \<and> memory_subtract (Num x) m = m\<lparr>memory := num_sub (memory m) x\<rparr>)
   \<and> ((x = PInf \<or> x = NInf) \<and> memory m = Fin q \<longrightarrow>
        memory (store (Num x) m) = x
        \<and> memory (memory_add (Num x) m) = x
        \<and> memory (memory_subtract (Num x) m) = num_neg x)"
  by (cases v) (auto simp: store_def memory_add_def memory_subtract_def typeof_number_def num_sub_def)

theorem memory_mutators_guard_witness:
  "\<not> typeof_number (Str ''7'')
   \<and> store (Str ''7'') new_memory = new_memory
   \<and> memory_add (Str ''7'') new_memory = new_memory
   \<and> memory_subtract (Str ''7'') new_memory = new_memory
   \<and> memory new_memory = Fin 0
   \<and> memory (store (Num NInf) new_memory) = NInf
   \<and> memory (memory_add (Num NInf) new_memory) = NInf
   \<and> memory (memory_subtract (Num NInf) new_memory) = PInf"
  using memory_mutators_guard [of "Str ''7''" new_memory NInf 0]
  by (simp add: typeof_number_def new_memory_def num_sub_def)

text \<open>
  C6, as the specification has it, fails for an infinity: \<open>store(Infinity)\<close> on a new
  memory changes the accumulator from \<open>0\<close> to \<open>Infinity\<close>.
\<close>

theorem store_accepts_infinity:
  "memory (store (Num PInf) new_memory) = PInf \<and> memory new_memory = Fin 0"
  by (simp add: store_def new_memory_def)

lemma take_append_take: "take n (xs @ take n ys) = take n (xs @ ys)"
  by (simp add: min_def)

lemma history_addToHistory:
  "history (addToHistory now opn res m)
   = take 100 (\<lparr>timestamp = now, operation = opn, result = res\<rparr> # history m)"
  by (simp add: addToHistory_def Let_def)

lemma history_record_all:
  "length (history m) \<le> 100
   \<Longrightarrow> history (record_all es m) = take 100 (rev (map make_entry es) @ history m)"
proof (induction es arbitrary: m)
  case Nil
  then show ?case
    by (simp add: record_all_def)
next
  case (Cons e es)
  obtain now opn res where e: "e = (now, opn, res)"
    by (cases e)
  let ?m = "addToHistory now opn res m"
  have step: "record_all (e # es) m = record_all es ?m"
    by (simp add: record_all_def e)
  have "length (history ?m) \<le> 100"
    by (simp add: history_addToHistory)
  then have "history (record_all es ?m) = take 100 (rev (map make_entry es) @ history ?m)"
    by (rule Cons.IH)
  also have "\<dots> = take 100 (rev (map make_entry es) @ make_entry e # history m)"
    by (simp only: history_addToHistory take_append_take) (simp add: make_entry_def e)
  finally show ?case
    by (simp add: step)
qed

lemma getHistory_nat: "getHistory (Some (Fin (of_nat n))) m = take n (history m)"
  by (simp add: getHistory_def slice_from_start_def)

text \<open>
  C7. After any sequence of calls of \<open>addToHistory\<close> on a new memory the history has at
  most 100 entries, and it is the first 100 of the recorded entries, the latest first: of
  101 recorded entries the first one recorded is gone. \<open>getHistory(n)\<close> is a prefix of
  that list, so it is ordered from the most recent entry on, and without an argument it
  is the prefix of length 10.
\<close>

theorem history_bounded_most_recent_first:
  "length (history (record_all es new_memory)) \<le> 100
   \<and> history (record_all es new_memory) = take 100 (rev (map make_entry es))
   \<and> getHistory (Some (Fin (of_nat n))) (record_all es new_memory)
       = take n (take 100 (rev (map make_entry es)))
   \<and> getHistory None (record_all es new_memory) = take 10 (take 100 (rev (map make_entry es)))"
proof -
  have h: "history (record_all es new_memory) = take 100 (rev (map make_entry es))"
    using history_record_all [of new_memory es] by (simp add: new_memory_def)
  have "getHistory None (record_all es new_memory) = take 10 (history (record_all es new_memory))"
    by (simp add: getHistory_def slice_from_start_def)
  with h getHistory_nat [of n "record_all es new_memory"] show ?thesis
    by simp
qed

section \<open>The state machine\<close>

lemma calculate_cases: "(\<exists>r. calculate a b operator = Num r) \<or> (\<exists>s. calculate a b operator = Str s)"
  by (auto simp: calculate_def split: jsval.splits option.splits prod.splits)


lemma expression_updateDisplay: "expression (updateDisplay v d) = expression d"
  by (simp add: updateDisplay_def Let_def)


lemma getCurrentValue_isError: "isError d \<Longrightarrow> getCurrentValue d = Fin 0"
  by (simp add: getCurrentValue_def)

lemma isError_updateDisplay:
  "v \<noteq> [] \<Longrightarrow> isError (updateDisplay v d) = (v \<in> set error_strings)"
  by (simp add: updateDisplay_def Let_def)

text \<open>
  C10. The three error strings put the display into its error state, and a display in
  its error state reads as the number \<open>0\<close>. So the evaluation that \<open>equals\<close> or a chained
  operator starts has \<open>0\<close> as its right operand, and an operator that captures the display
  (no left operand yet, or an operator chosen again, or no operator pending) captures \<open>0\<close>.
\<close>

theorem error_display_reads_as_zero:
  "isError (updateDisplay ''Error'' d) \<and> isError (updateDisplay ''Infinity'' d)
   \<and> isError (updateDisplay ''-Infinity'' d)
   \<and> (isError (disp c) \<longrightarrow>
        getCurrentValue (disp c) = Fin 0
        \<and> fst (calc_calculate now c) =
            (case (previousValue (state c), currentOperator (state c)) of
               (Some prev, Some operator) \<Rightarrow>
                 (case calculate (Num prev) (Num (Fin 0)) operator of Num r \<Rightarrow> Some r | _ \<Rightarrow> None)
             | _ \<Rightarrow> Some (Fin 0))
        \<and> (previousValue (state c) = None \<or> waitingForOperand (state c)
               \<or> \<not> truthy (currentOperator (state c))
             \<longrightarrow> previousValue (state (inputOperator now operator c)) = Some (Fin 0)))"
proof -
  have sentinels: "isError (updateDisplay ''Error'' d)" "isError (updateDisplay ''Infinity'' d)"
    "isError (updateDisplay ''-Infinity'' d)"
    by (simp_all add: isError_updateDisplay error_strings_def)
  have rest: "getCurrentValue (disp c) = Fin 0
        \<and> fst (calc_calculate now c) =
            (case (previousValue (state c), currentOperator (state c)) of
               (Some prev, Some operator) \<Rightarrow>
                 (case calculate (Num prev) (Num (Fin 0)) operator of Num r \<Rightarrow> Some r | _ \<Rightarrow> None)
             | _ \<Rightarrow> Some (Fin 0))
        \<and> (previousValue (state c) = None \<or> waitingForOperand (state c)
               \<or> \<not> truthy (currentOperator (state c))
             \<longrightarrow> previousValue (state (inputOperator now operator c)) = Some (Fin 0))"
    if e: "isError (disp c)"
  proof -
    have g: "getCurrentValue (disp c) = Fin 0"
      using e by (rule getCurrentValue_isError)
    have c: "fst (calc_calculate now c) =
            (case (previousValue (state c), currentOperator (state c)) of
               (Some prev, Some operator) \<Rightarrow>
                 (case calculate (Num prev) (Num (Fin 0)) operator of Num r \<Rightarrow> Some r | _ \<Rightarrow> None)
             | _ \<Rightarrow> Some (Fin 0))"
      by (simp add: calc_calculate_def g Let_def split: option.splits jsval.splits)
    have p: "previousValue (state (inputOperator now operator c)) = Some (Fin 0)"
      if "previousValue (state c) = None \<or> waitingForOperand (state c)
               \<or> \<not> truthy (currentOperator (state c))"
      using that by (auto simp: inputOperator_def g Let_def)
    from g c p show ?thesis
      by blast
  qed
  from sentinels rest show ?thesis
    by blast
qed

theorem error_display_reads_as_zero_witness:
  "isError (disp (run [Digit ''5'', Operator ''t1'' op_divide, Digit ''0'', Calculate ''t2'']))
   \<and> getCurrentValue (disp (run [Digit ''5'', Operator ''t1'' op_divide, Digit ''0'', Calculate ''t2''])) = Fin 0
   \<and> previousValue (state (run [Digit ''5'', Operator ''t1'' op_divide, Digit ''0'', Calculate ''t2''])) = None
   \<and> fst (calc_calculate ''t3'' (run [Digit ''5'', Operator ''t1'' op_divide, Digit ''0'', Calculate ''t2''])) = Some (Fin 0)
   \<and> previousValue (state (inputOperator ''t3'' ''+''
         (run [Digit ''5'', Operator ''t1'' op_divide, Digit ''0'', Calculate ''t2'']))) = Some (Fin 0)"
  using error_display_reads_as_zero
    [of undefined "run [Digit ''5'', Operator ''t1'' op_divide, Digit ''0'', Calculate ''t2'']" "''t3''" "''+''"]
  by (simp add: step_defs cong: let_weak_cong)




text \<open>
  C8, as the program has it. An operator pressed while the calculator waits for an operand
  and has a left operand evaluates nothing (the memory and its history stay as they are,
  and so does the text of the display), takes the number that the display shows as the new
  left operand, becomes the pending operator and leaves \<open>waitingForOperand\<close> true. After
  \<open>5 + -\<close> the left operand is \<open>5\<close> again, the operator is \<open>-\<close> and the history is empty.
\<close>

theorem operator_reselection:
  "(previousValue (state c) \<noteq> None \<and> waitingForOperand (state c) \<longrightarrow>
      mem (inputOperator now operator c) = mem c
      \<and> currentValue (disp (inputOperator now operator c)) = currentValue (disp c)
      \<and> previousValue (state (inputOperator now operator c)) = Some (getCurrentValue (disp c))
      \<and> currentOperator (state (inputOperator now operator c)) = Some operator
      \<and> waitingForOperand (state (inputOperator now operator c)))
   \<and> previousValue (state (run [Digit ''5'', Operator t1 ''+'', Operator t2 ''-''])) = Some (Fin 5)
   \<and> currentOperator (state (run [Digit ''5'', Operator t1 ''+'', Operator t2 ''-''])) = Some ''-''
   \<and> waitingForOperand (state (run [Digit ''5'', Operator t1 ''+'', Operator t2 ''-'']))
   \<and> history (mem (run [Digit ''5'', Operator t1 ''+'', Operator t2 ''-''])) = []"
proof -
  have general: "mem (inputOperator now operator c) = mem c
      \<and> currentValue (disp (inputOperator now operator c)) = currentValue (disp c)
      \<and> previousValue (state (inputOperator now operator c)) = Some (getCurrentValue (disp c))
      \<and> currentOperator (state (inputOperator now operator c)) = Some operator
      \<and> waitingForOperand (state (inputOperator now operator c))"
    if "previousValue (state c) \<noteq> None" "waitingForOperand (state c)"
    using that by (simp add: inputOperator_def updateExpression_def Let_def)
  have example:
    "previousValue (state (run [Digit ''5'', Operator t1 ''+'', Operator t2 ''-''])) = Some (Fin 5)
     \<and> currentOperator (state (run [Digit ''5'', Operator t1 ''+'', Operator t2 ''-''])) = Some ''-''
     \<and> waitingForOperand (state (run [Digit ''5'', Operator t1 ''+'', Operator t2 ''-'']))
     \<and> history (mem (run [Digit ''5'', Operator t1 ''+'', Operator t2 ''-''])) = []"
    by (simp add: step_defs cong: let_weak_cong)
  from general example show ?thesis
    by blast
qed

theorem operator_reselection_witness:
  "previousValue (state (run [Digit ''5'', Operator ''t1'' ''+''])) \<noteq> None
   \<and> waitingForOperand (state (run [Digit ''5'', Operator ''t1'' ''+'']))
   \<and> previousValue (state (inputOperator ''t2'' ''-'' (run [Digit ''5'', Operator ''t1'' ''+''])))
       = Some (Fin 5)
   \<and> currentOperator (state (inputOperator ''t2'' ''-'' (run [Digit ''5'', Operator ''t1'' ''+''])))
       = Some ''-''"
  using operator_reselection [of "run [Digit ''5'', Operator ''t1'' ''+'']" "''t2''" "''-''"]
  by (simp add: step_defs cong: let_weak_cong)

text \<open>
  C8, as the specification has it, fails: the left operand does not keep its value when
  the display shows it rounded. After \<open>1 \<div> 3 +\<close> the left operand is the result
  \<open>0.333333333333333\<close> and the display shows \<open>0.3333333333\<close>; pressing \<open>-\<close> next makes
  the left operand \<open>0.3333333333\<close>.
\<close>

theorem operator_reselection_changes_previousValue:
  "previousValue (state (run [Digit ''1'', Operator ''t1'' op_divide, Digit ''3'',
      Operator ''t2'' ''+''])) = Some (Fin (6004799503160655 / 18014398509481984))
   \<and> waitingForOperand (state (run [Digit ''1'', Operator ''t1'' op_divide, Digit ''3'',
      Operator ''t2'' ''+'']))
   \<and> previousValue (state (run [Digit ''1'', Operator ''t1'' op_divide, Digit ''3'',
      Operator ''t2'' ''+'', Operator ''t3'' ''-''])) = Some (Fin (6004799502560181 / 18014398509481984))
   \<and> Fin (6004799503160655 / 18014398509481984) \<noteq> Fin (6004799502560181 / 18014398509481984)"
  by (simp add: step_defs cong: let_weak_cong)

text \<open>
  The two ways out of \<open>equals\<close> with a pending operator and a left operand: both reset the
  pending operator, and a failed evaluation shows \<open>Error\<close>.
\<close>

lemma equals_failure_resets:
  assumes "previousValue (state c) = Some p" "currentOperator (state c) = Some operator"
    "operator \<noteq> []" "calculate (Num p) (Num (getCurrentValue (disp c))) operator = Str s"
  shows "currentValue (disp (equals now c)) = ''Error'' \<and> isError (disp (equals now c))
    \<and> previousValue (state (equals now c)) = None \<and> currentOperator (state (equals now c)) = None
    \<and> \<not> waitingForOperand (state (equals now c))"
  using assms
  by (simp add: equals_def truthy_def calc_calculate_def Let_def resetState_def showResult_def
      isValidResult_def updateDisplay_def error_strings_def)

lemma equals_success_resets:
  assumes "previousValue (state c) = Some p" "currentOperator (state c) = Some operator"
    "operator \<noteq> []" "calculate (Num p) (Num (getCurrentValue (disp c))) operator = Num r"
  shows "previousValue (state (equals now c)) = None \<and> currentOperator (state (equals now c)) = None
    \<and> \<not> waitingForOperand (state (equals now c)) \<and> justCalculated (state (equals now c))"
  using assms
  by (simp add: equals_def truthy_def calc_calculate_def Let_def resetState_def)

text \<open>
  C1 at \<open>5 \<div> 0 +\<close>. The evaluation that the second operator starts fails
  (\<open>calculate\<close> answers the sentinel \<open>Infinity\<close>, which goes to the history), and
  \<open>inputOperator\<close> skips the result: the display keeps the \<open>0\<close> that was typed and is not
  in its error state, the left operand is still \<open>5\<close>, and the calculator waits for an
  operand with \<open>+\<close> pending. Nothing is reset, and no \<open>Error\<close> is shown.
\<close>

theorem chained_operator_ignores_failed_evaluation:
  "currentValue (disp (run [Digit ''5'', Operator ''t1'' op_divide, Digit ''0'', Operator ''t2'' ''+'']))
     = ''0''
   \<and> \<not> isError (disp (run [Digit ''5'', Operator ''t1'' op_divide, Digit ''0'', Operator ''t2'' ''+'']))
   \<and> previousValue (state (run [Digit ''5'', Operator ''t1'' op_divide, Digit ''0'',
        Operator ''t2'' ''+''])) = Some (Fin 5)
   \<and> currentOperator (state (run [Digit ''5'', Operator ''t1'' op_divide, Digit ''0'',
        Operator ''t2'' ''+''])) = Some ''+''
   \<and> waitingForOperand (state (run [Digit ''5'', Operator ''t1'' op_divide, Digit ''0'',
        Operator ''t2'' ''+'']))
   \<and> map result (history (mem (run [Digit ''5'', Operator ''t1'' op_divide, Digit ''0'',
        Operator ''t2'' ''+'']))) = [Str ''Infinity'']"
  by (simp add: step_defs cong: let_weak_cong)

section \<open>The precision of results\<close>


















end
